theory Spec2Isabelle
  imports Complex_Main
begin

section \<open>MathUtils: the distribution library of the hypothesis-testing calculators\<close>

text \<open>
  The object \<open>MathUtils\<close> of the generalised calculator (chi-square, Student's t and
  normal) is embedded function by function, under the names of the source.

  Numbers: a JavaScript number is modelled as a \<open>real\<close>. \<open>Math.exp\<close>, \<open>Math.sin\<close>,
  \<open>Math.sqrt\<close>, \<open>Math.abs\<close>, \<open>Math.max\<close> and \<open>Math.PI\<close> are \<open>exp\<close>, \<open>sin\<close>,
  \<open>sqrt\<close>, \<open>abs\<close>, \<open>max\<close> and \<open>pi\<close>; \<open>Math.pow b e\<close> is \<open>b powr e\<close>, which agrees
  with it for a positive base (every call of the source has a positive base when the
  degrees of freedom are positive). Decimal literals stand for the decimal fraction they
  spell. This first reading is exact arithmetic: rounding, overflow, infinities and NaN of
  IEEE doubles are outside it. A second reading, \<open>js_gamma\<close>, ..., \<open>js_cdf\<close> further
  down, keeps the finite range of doubles with \<open>Infinity\<close> and \<open>NaN\<close>; the properties
  whose truth depends on overflow are stated over it.

  The family tag is a JavaScript string, compared with \<open>===\<close>; it is a \<open>string\<close> here.
  Loop counters take the values 0, 1, 2, ... only and are \<open>nat\<close>.
\<close>

subsection \<open>Helpers\<close>

text \<open>The array \<open>p\<close> of \<open>gamma\<close>.\<close>

definition p_coeffs :: "real list" where
  "p_coeffs =
     [676.5203681218851, - 1259.1392167224028, 771.32342877765313,
      - 176.61502916214059, 12.507343278686905, - 0.13857109526572012,
      9.9843695780195716 / 10 ^ 6, 1.5056327351493116 / 10 ^ 7]"

text \<open>\<^verbatim>\<open>for (let i = 0; i < p.length; i++) x += p[i] / (z + i + 1);\<close>\<close>

function gamma_loop :: "real \<Rightarrow> nat \<Rightarrow> real \<Rightarrow> real" where
  "gamma_loop z i x =
     (if i < length p_coeffs
      then gamma_loop z (i + 1) (x + p_coeffs ! i / (z + real i + 1))
      else x)"
  by pat_completeness auto
termination
  by (relation "measure (\<lambda>(z, i, x). length p_coeffs - i)") auto

text \<open>The part of \<open>gamma\<close> after the reflection test: \<open>z -= 1\<close> and the Lanczos formula.\<close>

definition gamma_direct :: "real \<Rightarrow> real" where
  "gamma_direct z0 =
     (let z = z0 - 1;
          x = gamma_loop z 0 0.99999999999980993;
          t = z + real (length p_coeffs) - 0.5
      in sqrt (2 * pi) * (t powr (z + 0.5)) * exp (- t) * x)"

function gamma :: "real \<Rightarrow> real" where
  "gamma z =
     (if z < 0.5 then pi / (sin (pi * z) * gamma (1 - z))
      else gamma_direct z)"
  by pat_completeness auto
termination
  by (relation "measure (\<lambda>z. if z < 0.5 then 1 else 0)") auto

text \<open>
  The same function with the depth of the call stack made explicit: \<open>gamma_fuel n z\<close>
  is the result when at most \<open>n\<close> nested activations of \<open>gamma\<close> are allowed, and
  \<open>None\<close> when the recursion would go deeper.
\<close>

fun gamma_fuel :: "nat \<Rightarrow> real \<Rightarrow> real option" where
  "gamma_fuel 0 z = None"
| "gamma_fuel (Suc n) z =
     (if z < 0.5
      then (case gamma_fuel n (1 - z) of
              None \<Rightarrow> None
            | Some g \<Rightarrow> Some (pi / (sin (pi * z) * g)))
      else Some (gamma_direct z))"

definition erf :: "real \<Rightarrow> real" where
  "erf x0 =
     (let sign = (if x0 \<ge> 0 then 1 else - 1);
          x = \<bar>x0\<bar>;
          a1 = 0.254829592;
          a2 = - 0.284496736;
          a3 = 1.421413741;
          a4 = - 1.453152027;
          a5 = 1.061405429;
          p = 0.3275911;
          t = 1.0 / (1.0 + p * x);
          y = 1.0 - (((((a5 * t + a4) * t) + a3) * t + a2) * t + a1) * t * exp (- x * x)
      in sign * y)"

subsection \<open>Distributions\<close>

text \<open>
  The two summation loops of \<open>chiCdf\<close> and of \<open>tCdf\<close> have one shape,
  \<^verbatim>\<open>for (let i = i0; i < bound; i += 2) sum += w * f(i * h);\<close>
  with \<open>w\<close> 4 or 2 and \<open>f\<close> the density.
\<close>

function sum_loop :: "(real \<Rightarrow> real) \<Rightarrow> real \<Rightarrow> real \<Rightarrow> nat \<Rightarrow> nat \<Rightarrow> real \<Rightarrow> real" where
  "sum_loop f w h i bound acc =
     (if i < bound then sum_loop f w h (i + 2) bound (acc + w * f (real i * h)) else acc)"
  by pat_completeness auto
termination
  by (relation "measure (\<lambda>(f, w, h, i, bound, acc). bound - i)") auto

definition chiPdf :: "real \<Rightarrow> real \<Rightarrow> real" where
  "chiPdf x k =
     (if x \<le> 0 \<or> k \<le> 0 then 0
      else let numerator = (x powr ((k / 2) - 1)) * exp (- x / 2);
               denominator = (2 powr (k / 2)) * gamma (k / 2)
           in numerator / denominator)"

definition chiCdf :: "real \<Rightarrow> real \<Rightarrow> real" where
  "chiCdf x k =
     (if x \<le> 0 then 0
      else let n = 100;
               h = x / real n;
               sum = chiPdf 0.0001 k + chiPdf x k;
               sum = sum_loop (\<lambda>y. chiPdf y k) 4 h 1 n sum;
               sum = sum_loop (\<lambda>y. chiPdf y k) 2 h 2 (n - 1) sum
           in (h / 3) * sum)"

definition normPdf :: "real \<Rightarrow> real" where
  "normPdf x = (1 / sqrt (2 * pi)) * exp (- 0.5 * x * x)"

definition normCdf :: "real \<Rightarrow> real" where
  "normCdf x = 0.5 * (1 + erf (x / sqrt 2))"

definition tPdf :: "real \<Rightarrow> real \<Rightarrow> real" where
  "tPdf x v =
     (let num = gamma ((v + 1) / 2);
          den = sqrt (v * pi) * gamma (v / 2);
          base = 1 + (x * x) / v;
          pow = - (v + 1) / 2
      in (num / den) * (base powr pow))"

definition tCdf :: "real \<Rightarrow> real \<Rightarrow> real" where
  "tCdf x v =
     (if x = 0 then 0.5
      else let limit = x;
               n = 200;
               h = \<bar>limit\<bar> / real n;
               sum = tPdf 0 v + tPdf limit v;
               sum = sum_loop (\<lambda>y. tPdf y v) 4 h 1 n sum;
               sum = sum_loop (\<lambda>y. tPdf y v) 2 h 2 (n - 1) sum;
               integral = (h / 3) * sum
           in if x > 0 then 0.5 + integral else 0.5 - integral)"

subsection \<open>Generic interface\<close>

definition pdf :: "real \<Rightarrow> real \<Rightarrow> string \<Rightarrow> real" where
  "pdf x df type =
     (if type = ''chi'' then chiPdf x df
      else if type = ''t'' then tPdf x df
      else normPdf x)"

definition cdf :: "real \<Rightarrow> real \<Rightarrow> string \<Rightarrow> real" where
  "cdf x df type =
     (if type = ''chi'' then chiCdf x df
      else if type = ''t'' then tCdf x df
      else normCdf x)"

text \<open>
  The bisection loop of \<open>ppf\<close>; the state is \<open>(low, high, mid)\<close>:
  \<^verbatim>\<open>for (let i = 0; i < 50; i++) { mid = (low + high) / 2; ... }\<close>
\<close>

function ppf_loop :: "real \<Rightarrow> real \<Rightarrow> string \<Rightarrow> nat \<Rightarrow> real \<times> real \<times> real \<Rightarrow> real \<times> real \<times> real" where
  "ppf_loop targetArea df type i (low, high, mid) =
     (if i < 50
      then let mid = (low + high) / 2;
               val = cdf mid df type
           in if val < targetArea
              then ppf_loop targetArea df type (i + 1) (mid, high, mid)
              else ppf_loop targetArea df type (i + 1) (low, mid, mid)
      else (low, high, mid))"
  by pat_completeness auto
termination
  by (relation "measure (\<lambda>(targetArea, df, type, i, s). 50 - i)") auto

definition ppf :: "real \<Rightarrow> real \<Rightarrow> string \<Rightarrow> real" where
  "ppf targetArea df type =
     (if targetArea \<le> 0 then (if type = ''chi'' then 0 else - 10)
      else if targetArea \<ge> 1 then (if type = ''chi'' then 100 else 10)
      else let low = (if type = ''chi'' then 0 else - 10);
               high = (if type = ''chi'' then max 100 (df + 10) else 10);
               mid = 0
           in snd (snd (ppf_loop targetArea df type 0 (low, high, mid))))"

subsection \<open>The chi-square-only calculators\<close>

text \<open>
  The two older calculators carry their own \<open>MathUtils\<close> with \<open>gamma\<close>, \<open>pdf\<close>,
  \<open>cdf\<close> and \<open>ppf\<close> for the chi-square family alone. Their \<open>gamma\<close>, \<open>pdf\<close> and
  \<open>cdf\<close> are, token for token, \<open>gamma\<close>, \<open>chiPdf\<close> and \<open>chiCdf\<close> above; their
  \<open>ppf(targetArea, k)\<close> is \<open>ppf_chi\<close>. Its loop is the loop of \<open>ppf\<close> with the
  chi-square \<open>cdf\<close>.
\<close>

definition ppf_chi :: "real \<Rightarrow> real \<Rightarrow> real" where
  "ppf_chi targetArea k =
     (if targetArea \<le> 0 then 0
      else let stdDev = sqrt (2 * k);
               high = max 100 (k + 6 * stdDev)
           in if targetArea \<ge> 1 then high
              else let low = 0; mid = 0
                   in snd (snd (ppf_loop targetArea k ''chi'' 0 (low, high, mid))))"

subsection \<open>Simpson's rule as the specification words it\<close>

text \<open>
  Composite Simpson's rule with \<open>n\<close> subintervals from \<open>a\<close> to \<open>b\<close>: weight 1 at
  both ends, weight 4 at the odd-indexed interior nodes, weight 2 at the even-indexed
  interior nodes, the whole times \<open>h / 3\<close>.
\<close>

definition simpson_spec :: "(real \<Rightarrow> real) \<Rightarrow> real \<Rightarrow> real \<Rightarrow> nat \<Rightarrow> real" where
  "simpson_spec f a b n =
     (let h = (b - a) / real n
      in (h / 3) * (f a + f b
            + 4 * (\<Sum>i\<leftarrow>filter odd [1..<n]. f (a + real i * h))
            + 2 * (\<Sum>i\<leftarrow>filter even [1..<n]. f (a + real i * h))))"

subsection \<open>The same functions over the range of JavaScript numbers\<close>

text \<open>
  A JavaScript number is a finite double, \<open>Infinity\<close>, \<open>-Infinity\<close> or \<open>NaN\<close>. The
  second reading of the code keeps this range: a \<open>jsnum\<close> is a finite value \<open>Num r\<close>,
  \<open>PosInf\<close>, \<open>NegInf\<close> or \<open>NaN\<close>, every arithmetic result at or beyond
  \<open>2^1024 - 2^970\<close> in magnitude (the point from which a double rounds to an infinity)
  becomes the infinity of its sign, and the undefined forms (\<open>Infinity - Infinity\<close>,
  \<open>0 * Infinity\<close>, \<open>0 / 0\<close>, \<open>Infinity / Infinity\<close>, a comparison with \<open>NaN\<close>)
  behave as IEEE 754 and ECMAScript prescribe. The operators \<open>+\<close>, \<open>-\<close>, \<open>*\<close>, \<open>/\<close>,
  \<open><\<close>, \<open>\<le>\<close> and \<open>\<bar>_\<bar>\<close> on \<open>jsnum\<close> are the JavaScript operators \<open>+\<close>, \<open>-\<close>, \<open>*\<close>,
  \<open>/\<close>, \<open><\<close>, \<open><=\<close> and \<open>Math.abs\<close>; \<open>js_sqrt\<close>, \<open>js_exp\<close>, \<open>js_sin\<close> and \<open>js_pow\<close>
  are \<open>Math.sqrt\<close>, \<open>Math.exp\<close>, \<open>Math.sin\<close> and \<open>Math.pow\<close>. Inside the range a result
  is the exact real value: rounding to 53 bits, gradual underflow and the sign of zero are
  not modelled. The functions \<open>js_gamma\<close>, ..., \<open>js_cdf\<close> below are the functions of
  \<open>MathUtils\<close> again, token for token, over \<open>jsnum\<close>.
\<close>

datatype jsnum = Num real | PosInf | NegInf | NaN

definition max_range :: real where
  "max_range = 2 ^ 1024 - 2 ^ 970"

definition overflow :: "real \<Rightarrow> jsnum" where
  "overflow r =
     (if max_range \<le> r then PosInf
      else if r \<le> - max_range then NegInf
      else Num r)"

fun signed_inf :: "real \<Rightarrow> jsnum" where
  "signed_inf s = (if 0 < s then PosInf else if s < 0 then NegInf else NaN)"

fun sign_of :: "jsnum \<Rightarrow> real" where
  "sign_of (Num r) = sgn r"
| "sign_of PosInf = 1"
| "sign_of NegInf = - 1"
| "sign_of NaN = 0"

instantiation jsnum :: "{plus, minus, uminus, times, divide, abs, ord}"
begin

fun uminus_jsnum :: "jsnum \<Rightarrow> jsnum" where
  "- Num r = Num (- r)"
| "- PosInf = NegInf"
| "- NegInf = PosInf"
| "- NaN = NaN"

fun plus_jsnum :: "jsnum \<Rightarrow> jsnum \<Rightarrow> jsnum" where
  "Num a + Num b = overflow (a + b)"
| "NaN + (b::jsnum) = NaN"
| "(a::jsnum) + NaN = NaN"
| "PosInf + NegInf = NaN"
| "NegInf + PosInf = NaN"
| "PosInf + (b::jsnum) = PosInf"
| "(a::jsnum) + PosInf = PosInf"
| "NegInf + (b::jsnum) = NegInf"
| "(a::jsnum) + NegInf = NegInf"

definition minus_jsnum :: "jsnum \<Rightarrow> jsnum \<Rightarrow> jsnum" where
  "a - b = a + (- b)" for a b :: jsnum

fun times_jsnum :: "jsnum \<Rightarrow> jsnum \<Rightarrow> jsnum" where
  "Num a * Num b = overflow (a * b)"
| "NaN * (b::jsnum) = NaN"
| "(a::jsnum) * NaN = NaN"
| "(a::jsnum) * (b::jsnum) = signed_inf (sign_of a * sign_of b)"

fun divide_jsnum :: "jsnum \<Rightarrow> jsnum \<Rightarrow> jsnum" where
  "divide_jsnum (Num a) (Num b) = (if b = 0 then signed_inf (sgn a) else overflow (a / b))"
| "divide_jsnum NaN b = NaN"
| "divide_jsnum a NaN = NaN"
| "divide_jsnum (Num a) b = Num 0"
| "divide_jsnum a (Num b) = signed_inf (sign_of a * (if b < 0 then - 1 else 1))"
| "divide_jsnum a b = NaN"

fun abs_jsnum :: "jsnum \<Rightarrow> jsnum" where
  "\<bar>Num r\<bar> = Num \<bar>r\<bar>"
| "\<bar>PosInf\<bar> = PosInf"
| "\<bar>NegInf\<bar> = PosInf"
| "\<bar>NaN\<bar> = NaN"

fun less_jsnum :: "jsnum \<Rightarrow> jsnum \<Rightarrow> bool" where
  "Num a < Num b \<longleftrightarrow> a < b"
| "NaN < (b::jsnum) \<longleftrightarrow> False"
| "(a::jsnum) < NaN \<longleftrightarrow> False"
| "(a::jsnum) < NegInf \<longleftrightarrow> False"
| "PosInf < (b::jsnum) \<longleftrightarrow> False"
| "(a::jsnum) < (b::jsnum) \<longleftrightarrow> True"

definition less_eq_jsnum :: "jsnum \<Rightarrow> jsnum \<Rightarrow> bool" where
  "a \<le> b \<longleftrightarrow> a < b \<or> (a = b \<and> a \<noteq> NaN)" for a b :: jsnum

instance ..

end

instantiation jsnum :: inverse
begin

definition inverse_jsnum :: "jsnum \<Rightarrow> jsnum" where
  "inverse_jsnum a = divide (Num 1) a"

instance ..

end


fun js_sqrt :: "jsnum \<Rightarrow> jsnum" where
  "js_sqrt (Num r) = (if r < 0 then NaN else Num (sqrt r))"
| "js_sqrt PosInf = PosInf"
| "js_sqrt NegInf = NaN"
| "js_sqrt NaN = NaN"

fun js_exp :: "jsnum \<Rightarrow> jsnum" where
  "js_exp (Num r) = overflow (exp r)"
| "js_exp PosInf = PosInf"
| "js_exp NegInf = Num 0"
| "js_exp NaN = NaN"

fun js_sin :: "jsnum \<Rightarrow> jsnum" where
  "js_sin (Num r) = Num (sin r)"
| "js_sin a = NaN"

fun js_pow :: "jsnum \<Rightarrow> jsnum \<Rightarrow> jsnum" where
  "js_pow b NaN = NaN"
| "js_pow b (Num e) =
     (if e = 0 then Num 1
      else case b of
        NaN \<Rightarrow> NaN
      | PosInf \<Rightarrow> (if 0 < e then PosInf else Num 0)
      | NegInf \<Rightarrow> (if 0 < e then (if e \<in> \<int> \<and> odd \<lfloor>e\<rfloor> then NegInf else PosInf) else Num 0)
      | Num x \<Rightarrow>
          (if 0 < x then overflow (x powr e)
           else if x = 0 then (if 0 < e then Num 0 else PosInf)
           else if e \<in> \<int> then overflow ((if odd \<lfloor>e\<rfloor> then - 1 else 1) * (\<bar>x\<bar> powr e))
           else NaN))"
| "js_pow b PosInf =
     (case b of
        NaN \<Rightarrow> NaN
      | Num x \<Rightarrow> (if 1 < \<bar>x\<bar> then PosInf else if \<bar>x\<bar> = 1 then NaN else Num 0)
      | _ \<Rightarrow> PosInf)"
| "js_pow b NegInf =
     (case b of
        NaN \<Rightarrow> NaN
      | Num x \<Rightarrow> (if 1 < \<bar>x\<bar> then Num 0 else if \<bar>x\<bar> = 1 then NaN else PosInf)
      | _ \<Rightarrow> Num 0)"



function js_gamma_loop :: "jsnum \<Rightarrow> nat \<Rightarrow> jsnum \<Rightarrow> jsnum" where
  "js_gamma_loop z i x =
     (if i < length p_coeffs
      then js_gamma_loop z (i + 1) (x + Num (p_coeffs ! i) / (z + Num (real i) + Num 1))
      else x)"
  by pat_completeness auto
termination
  by (relation "measure (\<lambda>(z, i, x). length p_coeffs - i)") auto

definition js_gamma_direct :: "jsnum \<Rightarrow> jsnum" where
  "js_gamma_direct z0 =
     (let z = z0 - Num 1;
          x = js_gamma_loop z 0 (Num 0.99999999999980993);
          t = z + Num (real (length p_coeffs)) - Num 0.5
      in js_sqrt (Num 2 * Num pi) * js_pow t (z + Num 0.5) * js_exp (- t) * x)"

function js_gamma :: "jsnum \<Rightarrow> jsnum" where
  "js_gamma z =
     (if z < Num 0.5 then Num pi / (js_sin (Num pi * z) * js_gamma (Num 1 - z))
      else js_gamma_direct z)"
  by pat_completeness auto
termination
proof (relation "measure (\<lambda>z. if z < Num 0.5 then 1 else 0)")
  fix z :: jsnum
  assume "z < Num 0.5"
  then have "\<not> (Num 1 - z < Num 0.5)"
    by (cases z) (auto simp: minus_jsnum_def overflow_def max_range_def)
  then show "(Num 1 - z, z) \<in> measure (\<lambda>z. if z < Num 0.5 then 1 else 0)"
    using \<open>z < Num 0.5\<close> by simp
qed simp

definition js_erf :: "jsnum \<Rightarrow> jsnum" where
  "js_erf x0 =
     (let sign = (if Num 0 \<le> x0 then Num 1 else Num (- 1));
          x = \<bar>x0\<bar>;
          a1 = Num 0.254829592;
          a2 = Num (- 0.284496736);
          a3 = Num 1.421413741;
          a4 = Num (- 1.453152027);
          a5 = Num 1.061405429;
          p = Num 0.3275911;
          t = Num 1.0 / (Num 1.0 + p * x);
          y = Num 1.0 - (((((a5 * t + a4) * t) + a3) * t + a2) * t + a1) * t * js_exp (- x * x)
      in sign * y)"

function js_sum_loop :: "(jsnum \<Rightarrow> jsnum) \<Rightarrow> jsnum \<Rightarrow> jsnum \<Rightarrow> nat \<Rightarrow> nat \<Rightarrow> jsnum \<Rightarrow> jsnum" where
  "js_sum_loop f w h i bound acc =
     (if i < bound then js_sum_loop f w h (i + 2) bound (acc + w * f (Num (real i) * h)) else acc)"
  by pat_completeness auto
termination
  by (relation "measure (\<lambda>(f, w, h, i, bound, acc). bound - i)") auto

definition js_chiPdf :: "jsnum \<Rightarrow> jsnum \<Rightarrow> jsnum" where
  "js_chiPdf x k =
     (if x \<le> Num 0 \<or> k \<le> Num 0 then Num 0
      else let numerator = js_pow x ((k / Num 2) - Num 1) * js_exp (- x / Num 2);
               denominator = js_pow (Num 2) (k / Num 2) * js_gamma (k / Num 2)
           in numerator / denominator)"

definition js_chiCdf :: "jsnum \<Rightarrow> jsnum \<Rightarrow> jsnum" where
  "js_chiCdf x k =
     (if x \<le> Num 0 then Num 0
      else let n = 100;
               h = x / Num (real n);
               sum = js_chiPdf (Num 0.0001) k + js_chiPdf x k;
               sum = js_sum_loop (\<lambda>y. js_chiPdf y k) (Num 4) h 1 n sum;
               sum = js_sum_loop (\<lambda>y. js_chiPdf y k) (Num 2) h 2 (n - 1) sum
           in (h / Num 3) * sum)"


definition js_normCdf :: "jsnum \<Rightarrow> jsnum" where
  "js_normCdf x = Num 0.5 * (Num 1 + js_erf (x / js_sqrt (Num 2)))"

definition js_tPdf :: "jsnum \<Rightarrow> jsnum \<Rightarrow> jsnum" where
  "js_tPdf x v =
     (let num = js_gamma ((v + Num 1) / Num 2);
          den = js_sqrt (v * Num pi) * js_gamma (v / Num 2);
          base = Num 1 + (x * x) / v;
          pow = - (v + Num 1) / Num 2
      in (num / den) * js_pow base pow)"

definition js_tCdf :: "jsnum \<Rightarrow> jsnum \<Rightarrow> jsnum" where
  "js_tCdf x v =
     (if x = Num 0 then Num 0.5
      else let limit = x;
               n = 200;
               h = \<bar>limit\<bar> / Num (real n);
               sum = js_tPdf (Num 0) v + js_tPdf limit v;
               sum = js_sum_loop (\<lambda>y. js_tPdf y v) (Num 4) h 1 n sum;
               sum = js_sum_loop (\<lambda>y. js_tPdf y v) (Num 2) h 2 (n - 1) sum;
               integral = (h / Num 3) * sum
           in if Num 0 < x then Num 0.5 + integral else Num 0.5 - integral)"


definition js_cdf :: "jsnum \<Rightarrow> jsnum \<Rightarrow> string \<Rightarrow> jsnum" where
  "js_cdf x df type =
     (if type = ''chi'' then js_chiCdf x df
      else if type = ''t'' then js_tCdf x df
      else js_normCdf x)"

text \<open>A value that is not negative: \<open>NaN\<close>, or a number or infinity that is \<open>>= 0\<close>.\<close>

definition nonneg_js :: "jsnum \<Rightarrow> bool" where
  "nonneg_js v \<longleftrightarrow> v = NaN \<or> Num 0 \<le> v"

section \<open>Properties\<close>

declare js_gamma_loop.simps [simp del] js_gamma.simps [simp del] js_sum_loop.simps [simp del]
declare gamma_loop.simps [simp del] gamma.simps [simp del] sum_loop.simps [simp del]
  ppf_loop.simps [simp del]

subsection \<open>Dispatch on the family tag\<close>

lemma ppf_loop_cong:
  assumes c: "\<And>m. cdf m df type = cdf m df' type'"
  shows "ppf_loop ta df type i s = ppf_loop ta df' type' i s"
proof (induction n \<equiv> "50 - i" arbitrary: i s)
  case 0
  obtain low high mid where s: "s = (low, high, mid)" by (cases s) auto
  from 0 show ?case
    by (simp add: s ppf_loop.simps [of ta df type i] ppf_loop.simps [of ta df' type' i])
next
  case (Suc n)
  obtain low high mid where s: "s = (low, high, mid)" by (cases s) auto
  from Suc(2) have i: "i < 50" and n: "n = 50 - (i + 1)" by simp_all
  show ?case
    using i Suc(1) [OF n]
    by (simp add: s c Let_def ppf_loop.simps [of ta df type i] ppf_loop.simps [of ta df' type' i])
qed

lemma ppf_loop_normal:
  "type \<noteq> ''chi'' \<Longrightarrow> type \<noteq> ''t'' \<Longrightarrow>
   ppf_loop ta df type i s = ppf_loop ta df' ''normal'' i s"
  by (rule ppf_loop_cong) (simp add: cdf_def)

text \<open>
  C9. The degrees of freedom do not influence the normal family: \<open>pdf\<close>, \<open>cdf\<close> and
  \<open>ppf\<close> with the tag \<open>normal\<close> give the same result for any two values of \<open>df\<close>.
\<close>

theorem normal_ignores_df:
  "pdf x df1 ''normal'' = pdf x df2 ''normal'' \<and>
   cdf x df1 ''normal'' = cdf x df2 ''normal'' \<and>
   ppf p df1 ''normal'' = ppf p df2 ''normal''"
  using ppf_loop_normal [where type = "''normal''" and ta = p and df = df1 and df' = df2 and i = 0 and s = "(- 10, 10, 0)"]
  by (simp add: pdf_def cdf_def ppf_def)

theorem normal_ignores_df_witness:
  "pdf 2 1 ''normal'' = pdf 2 30 ''normal'' \<and>
   cdf 2 1 ''normal'' = cdf 2 30 ''normal'' \<and>
   ppf (1/4) 1 ''normal'' = ppf (1/4) 30 ''normal''"
  by (rule normal_ignores_df)



subsection \<open>Symmetry of the densities\<close>

text \<open>
  C7. The Student's-t and the normal density are symmetric about 0: for positive degrees
  of freedom, \<open>pdf\<close> gives the same value at \<open>x\<close> and at \<open>- x\<close>.
\<close>

theorem density_symmetric:
  "0 < df \<Longrightarrow>
   pdf x df ''t'' = pdf (- x) df ''t'' \<and> pdf x df ''normal'' = pdf (- x) df ''normal''"
  by (simp add: pdf_def tPdf_def normPdf_def)

theorem density_symmetric_witness:
  "(0::real) < 5 \<and> pdf 2 5 ''t'' = pdf (- 2) 5 ''t'' \<and> pdf 2 5 ''normal'' = pdf (- 2) 5 ''normal''"
  using density_symmetric [of 5 2] by simp

subsection \<open>Recursion of gamma\<close>

text \<open>
  C8. \<open>gamma\<close> returns for every real \<open>z\<close> with a call stack of depth at most two (the
  call and at most one nested call): for \<open>z < 0.5\<close> it makes exactly one recursive
  call (one activation alone is not enough), at \<open>1 - z\<close>, which is above 0.5 and takes
  the direct branch; for \<open>z \<ge> 0.5\<close> it makes none.
\<close>

theorem gamma_recursion_depth:
  "gamma_fuel 2 z = Some (gamma z) \<and>
   (z < 0.5 \<longrightarrow> gamma_fuel 1 z = None \<and> 1 - z > 0.5 \<and>
      gamma z = pi / (sin (pi * z) * gamma_direct (1 - z))) \<and>
   (\<not> z < 0.5 \<longrightarrow> gamma_fuel 1 z = Some (gamma z) \<and> gamma z = gamma_direct z)"
proof (cases "z < 0.5")
  case True
  then have "\<not> 1 - z < 0.5" by simp
  then have g1: "gamma (1 - z) = gamma_direct (1 - z)"
    by (subst gamma.simps) simp
  have g: "gamma z = pi / (sin (pi * z) * gamma_direct (1 - z))"
    using True g1 by (subst gamma.simps) simp
  show ?thesis using True g by (simp add: numeral_2_eq_2)
next
  case False
  then have "gamma z = gamma_direct z" by (subst gamma.simps) simp
  then show ?thesis using False by (simp add: numeral_2_eq_2)
qed

theorem gamma_recursion_depth_witness:
  "gamma_fuel 2 (1/4) = Some (gamma (1/4)) \<and> gamma_fuel 1 (1/4) = None \<and>
   gamma (1/4) = pi / (sin (pi * (1/4)) * gamma_direct (1 - 1/4)) \<and>
   gamma_fuel 1 3 = Some (gamma 3) \<and> gamma 3 = gamma_direct 3"
proof -
  have a: "(1/4::real) < 0.5" and b: "\<not> (3::real) < 0.5" by simp_all
  show ?thesis
    using gamma_recursion_depth [of "1/4"] gamma_recursion_depth [of 3] a b by blast
qed

subsection \<open>The sign of gamma and of the densities\<close>













lemma normPdf_nonneg: "0 \<le> normPdf x"
  by (simp add: normPdf_def)

subsection \<open>The densities over the range of JavaScript numbers\<close>

text \<open>
  With the finite range of doubles the sign of the densities survives, their finiteness
  does not: \<open>Math.pow(t, z + 0.5)\<close> in \<open>gamma\<close> overflows from the argument 142.5 on, and
  \<open>Infinity / Infinity\<close> is \<open>NaN\<close>.
\<close>

lemma less_eq_jsnum_simps [simp]:
  "Num a \<le> Num b \<longleftrightarrow> a \<le> b"
  "Num a \<le> PosInf" "\<not> Num a \<le> NegInf" "\<not> Num a \<le> NaN"
  "PosInf \<le> PosInf" "\<not> PosInf \<le> Num b" "\<not> PosInf \<le> NegInf" "\<not> PosInf \<le> NaN"
  "NegInf \<le> Num b" "NegInf \<le> PosInf" "NegInf \<le> NegInf" "\<not> NegInf \<le> NaN"
  "\<not> NaN \<le> c"
  unfolding less_eq_jsnum_def by auto






lemma nonneg_js_cases:
  "nonneg_js v \<longleftrightarrow> v = NaN \<or> v = PosInf \<or> (\<exists>r\<ge>0. v = Num r)"
  unfolding nonneg_js_def less_eq_jsnum_def by (cases v) auto









lemma nonneg_js_Num [simp]: "nonneg_js (Num r) \<longleftrightarrow> 0 \<le> r"
  unfolding nonneg_js_cases by auto

lemma nonneg_js_simps [simp]: "nonneg_js NaN" "nonneg_js PosInf" "\<not> nonneg_js NegInf"
  unfolding nonneg_js_cases by auto



































subsection \<open>The Student's-t cumulative distribution\<close>

lemma filter_upt_skip:
  "\<not> P (Suc i) \<Longrightarrow> filter P [Suc i..<n] = filter P [Suc (Suc i)..<n]"
  by (cases "Suc i < n") (simp_all add: upt_conv_Cons)

lemma sum_loop_filter:
  assumes P: "\<And>j. P (Suc j) = (\<not> P j)"
  shows "P i \<Longrightarrow> sum_loop f w h i n s = s + w * (\<Sum>j\<leftarrow>filter P [i..<n]. f (real j * h))"
proof (induction f w h i n s rule: sum_loop.induct)
  case (1 f w h i bound acc)
  show ?case
  proof (cases "i < bound")
    case True
    have Pi2: "P (i + 2)" using 1(2) P by simp
    have nP: "\<not> P (Suc i)" using 1(2) P by simp
    have "filter P [i..<bound] = i # filter P [i + 2..<bound]"
      using True 1(2) filter_upt_skip [where P = P and i = i and n = bound] nP by (simp add: upt_conv_Cons)
    then show ?thesis
      using True 1(1) [OF True Pi2]
      by (subst sum_loop.simps) (simp add: algebra_simps)
  next
    case False
    then show ?thesis by (subst sum_loop.simps) simp
  qed
qed

lemma sum_loop_odd:
  "odd i \<Longrightarrow> sum_loop f w h i n s = s + w * (\<Sum>j\<leftarrow>filter odd [i..<n]. f (real j * h))"
  by (rule sum_loop_filter) simp_all

lemma sum_loop_even:
  "even i \<Longrightarrow> sum_loop f w h i n s = s + w * (\<Sum>j\<leftarrow>filter even [i..<n]. f (real j * h))"
  by (rule sum_loop_filter) simp_all

lemma even_interior:
  assumes "odd n"
  shows "filter even [Suc 0..<Suc n] = filter even [2..<n]"
proof -
  have n: "1 \<le> n" using assms by (cases n) auto
  have sk: "filter even [Suc 0..<n] = filter even [Suc (Suc 0)..<n]"
    by (rule filter_upt_skip) simp
  have two: "Suc (Suc 0) = 2" by simp
  from sk have "filter even [Suc 0..<n] = filter even [2..<n]"
    by (simp only: two)
  then show ?thesis using assms n by simp
qed

lemma tPdf_minus: "tPdf (- x) v = tPdf x v"
  by (simp add: tPdf_def)

lemma simpson_loops:
  "odd n \<Longrightarrow>
   (h / 3) * sum_loop f 2 h 2 n (sum_loop f 4 h 1 (Suc n) (f 0 + f (real (Suc n) * h)))
     = simpson_spec f 0 (real (Suc n) * h) (Suc n)"
  by (simp add: simpson_spec_def Let_def sum_loop_odd sum_loop_even even_interior
      del: upt_Suc upt_rec_numeral)

lemma simpson_200:
  "simpson_spec f 0 a 200
     = ((a / 200) / 3) * sum_loop f 2 (a / 200) 2 199 (sum_loop f 4 (a / 200) 1 200 (f 0 + f a))"
proof -
  have "simpson_spec f 0 (real (Suc 199) * (a / 200)) (Suc 199)
      = ((a / 200) / 3) * sum_loop f 2 (a / 200) 2 199
          (sum_loop f 4 (a / 200) 1 (Suc 199) (f 0 + f (real (Suc 199) * (a / 200))))"
    by (rule simpson_loops [symmetric]) simp
  then show ?thesis by simp
qed

lemma tCdf_integral:
  assumes "x \<noteq> 0"
  shows "tCdf x v = (if x > 0 then 0.5 + simpson_spec (\<lambda>y. tPdf y v) 0 \<bar>x\<bar> 200
               else 0.5 - simpson_spec (\<lambda>y. tPdf y v) 0 \<bar>x\<bar> 200)"
  using assms by (simp add: tCdf_def Let_def simpson_200 tPdf_minus)

text \<open>
  C5. For positive \<open>v\<close>, \<open>tCdf\<close> is exactly 0.5 at 0; for positive \<open>x\<close> it is 0.5 plus
  Simpson's rule with 200 subintervals for the t density from 0 (the centre, where the
  sum starts with the density at 0) to \<open>\<bar>x\<bar>\<close>; for negative \<open>x\<close> it is 0.5 minus the same
  integral.
\<close>

theorem tCdf_one_sided_simpson:
  "0 < v \<Longrightarrow>
   tCdf 0 v = 0.5 \<and>
   (0 < x \<longrightarrow> tCdf x v = 0.5 + simpson_spec (\<lambda>y. tPdf y v) 0 \<bar>x\<bar> 200) \<and>
   (x < 0 \<longrightarrow> tCdf x v = 0.5 - simpson_spec (\<lambda>y. tPdf y v) 0 \<bar>x\<bar> 200)"
  using tCdf_integral [of x v] by (auto simp: tCdf_def)

theorem tCdf_one_sided_simpson_witness:
  "(0::real) < 5 \<and> tCdf 0 5 = 0.5 \<and>
   tCdf 2 5 = 0.5 + simpson_spec (\<lambda>y. tPdf y 5) 0 (abs 2) 200 \<and>
   tCdf (- 2) 5 = 0.5 - simpson_spec (\<lambda>y. tPdf y 5) 0 (abs (- 2)) 200"
proof -
  have a: "(0::real) < 5" and b: "(0::real) < 2" and c: "(- 2::real) < 0" by simp_all
  show ?thesis
    using tCdf_one_sided_simpson [OF a, of 2] tCdf_one_sided_simpson [OF a, of "- 2"] a b c
    by blast
qed

subsection \<open>The integration loops as sums\<close>







subsection \<open>The error function and the normal cumulative distribution\<close>














subsection \<open>The range of cdf\<close>








subsection \<open>Monotonicity of cdf\<close>









subsection \<open>The round trip through ppf\<close>




















subsection \<open>The sentinel of ppf at probability one\<close>

lemma sqrt_100: "sqrt 100 = 10"
  using real_sqrt_abs [of 10] by simp

text \<open>
  C3. At \<open>p = 1\<close> and 50 degrees of freedom the generalised \<open>ppf\<close> returns 100 for the
  chi-square family, where \<open>max(100, df + 6 * sqrt(2 * df))\<close> is 110; the chi-square-only
  \<open>ppf\<close> of the older calculators returns 110 there.
\<close>

theorem ppf_upper_sentinel_chi:
  "ppf 1 50 ''chi'' = 100 \<and> max 100 (50 + 6 * sqrt (2 * 50)) = (110::real) \<and>
   ppf_chi 1 50 = 110"
  by (simp add: ppf_def ppf_chi_def sqrt_100 Let_def)

end
